theory Spec2Isabelle
  imports Main
begin

section \<open>Go values used by ld-relay.go\<close>

text \<open>
  A Go \<^verbatim>\<open>string\<close> and a \<^verbatim>\<open>[]byte\<close> are byte sequences: both are \<^typ>\<open>string\<close> here
  (a list of 8-bit characters). An \<^verbatim>\<open>error\<close> made by \<^verbatim>\<open>errors.New(msg)\<close> is the
  value \<open>errors_New msg\<close>; a function returning \<^verbatim>\<open>(T, error)\<close> returns
  \<open>error + T\<close>, with \<open>Inl\<close> for a non-nil error.
\<close>

datatype error = errors_New string | json_SyntaxError | json_UnmarshalTypeError

text \<open>
  \<^verbatim>\<open>err.Error()\<close>. The texts of the JSON package's own errors are not modelled: a
  fixed text stands for each kind.
\<close>

fun Error :: "error \<Rightarrow> string" where
  "Error (errors_New msg) = msg"
| "Error json_SyntaxError = ''json: syntax error''"
| "Error json_UnmarshalTypeError = ''json: cannot unmarshal into Go value of type ld.User''"

section \<open>The library package encoding/base64 (URL alphabet)\<close>

text \<open>
  \<^verbatim>\<open>base64.URLEncoding\<close> is the RFC 4648 URL-safe alphabet with \<^verbatim>\<open>=\<close> padding;
  \<^verbatim>\<open>base64.RawURLEncoding\<close> is the same alphabet without padding. The library packs
  three bytes into a 24-bit value with shifts and masks; the same value is written here
  with multiplication, \<open>div\<close> and \<open>mod\<close> on \<^typ>\<open>nat\<close>.
\<close>

definition encodeURL :: string where
  "encodeURL = ''ABCDEFGHIJKLMNOPQRSTUVWXYZabcdefghijklmnopqrstuvwxyz0123456789-_''"

definition enc6 :: "nat \<Rightarrow> char" where
  "enc6 v = encodeURL ! (v mod 64)"

fun index_of :: "char \<Rightarrow> string \<Rightarrow> nat option" where
  "index_of c [] = None"
| "index_of c (x # xs) = (if c = x then Some 0 else map_option Suc (index_of c xs))"

definition decodeMap :: "char \<Rightarrow> nat option" where
  "decodeMap c = index_of c encodeURL"

text \<open>
  \<^verbatim>\<open>Encode\<close>: whole groups of three bytes give four characters; a rest of two bytes
  gives three characters, a rest of one byte gives two, followed by padding when the
  encoding pads (\<open>pad\<close>).
\<close>

fun Encode :: "bool \<Rightarrow> string \<Rightarrow> string" where
  "Encode pad (b0 # b1 # b2 # rest) =
     (let val = of_char b0 * 65536 + of_char b1 * 256 + of_char b2
      in [enc6 (val div 2 ^ 18), enc6 (val div 2 ^ 12), enc6 (val div 2 ^ 6), enc6 val]
         @ Encode pad rest)"
| "Encode pad [b0, b1] =
     (let val = of_char b0 * 65536 + of_char b1 * 256
      in [enc6 (val div 2 ^ 18), enc6 (val div 2 ^ 12), enc6 (val div 2 ^ 6)]
         @ (if pad then ''='' else []))"
| "Encode pad [b0] =
     (let val = of_char b0 * 65536
      in [enc6 (val div 2 ^ 18), enc6 (val div 2 ^ 12)]
         @ (if pad then ''=='' else []))"
| "Encode pad [] = []"

definition URLEncoding_EncodeToString :: "string \<Rightarrow> string" where
  "URLEncoding_EncodeToString src = Encode True src"

definition RawURLEncoding_EncodeToString :: "string \<Rightarrow> string" where
  "RawURLEncoding_EncodeToString src = Encode False src"

text \<open>
  \<^verbatim>\<open>decode\<close> reads quanta of four characters. \<open>None\<close> is the library's
  \<^verbatim>\<open>CorruptInputError\<close>. The input may end inside a quantum after two or three
  characters only when the encoding does not pad; a padding encoding wants \<^verbatim>\<open>==\<close>
  after two characters or \<^verbatim>\<open>=\<close> after three, and nothing after the padding. The
  decoder is not in strict mode, so the unused low bits of a partial quantum are not
  inspected.
\<close>

definition quantum :: "nat \<Rightarrow> nat \<Rightarrow> nat \<Rightarrow> nat \<Rightarrow> nat" where
  "quantum v0 v1 v2 v3 = v0 * 2 ^ 18 + v1 * 2 ^ 12 + v2 * 2 ^ 6 + v3"

definition byte :: "nat \<Rightarrow> char" where
  "byte n = char_of n"

fun decode :: "bool \<Rightarrow> string \<Rightarrow> string option" where
  "decode pad [] = Some []"
| "decode pad [c0] = None"
| "decode pad (c0 # c1 # cs) =
     (case (decodeMap c0, decodeMap c1) of
        (Some v0, Some v1) \<Rightarrow>
          (case cs of
             [] \<Rightarrow> if pad then None else Some [byte (quantum v0 v1 0 0 div 2 ^ 16)]
           | c2 # cs2 \<Rightarrow>
               (case decodeMap c2 of
                  Some v2 \<Rightarrow>
                    (case cs2 of
                       [] \<Rightarrow> if pad then None
                             else Some [byte (quantum v0 v1 v2 0 div 2 ^ 16),
                                        byte (quantum v0 v1 v2 0 div 2 ^ 8)]
                     | c3 # cs3 \<Rightarrow>
                         (case decodeMap c3 of
                            Some v3 \<Rightarrow>
                              map_option
                                (\<lambda>r. [byte (quantum v0 v1 v2 v3 div 2 ^ 16),
                                      byte (quantum v0 v1 v2 v3 div 2 ^ 8),
                                      byte (quantum v0 v1 v2 v3)] @ r)
                                (decode pad cs3)
                          | None \<Rightarrow>
                              if pad \<and> c3 = CHR ''='' \<and> cs3 = []
                              then Some [byte (quantum v0 v1 v2 0 div 2 ^ 16),
                                         byte (quantum v0 v1 v2 0 div 2 ^ 8)]
                              else None))
                | None \<Rightarrow>
                    if pad \<and> c2 = CHR ''='' \<and> cs2 = ''=''
                    then Some [byte (quantum v0 v1 0 0 div 2 ^ 16)]
                    else None))
      | _ \<Rightarrow> None)"

text \<open>
  \<^verbatim>\<open>DecodeString\<close> ignores carriage returns and line feeds wherever they stand, then
  decodes; on an error the caller in ld-relay.go drops the bytes decoded so far.
\<close>

definition removeNewlines :: "string \<Rightarrow> string" where
  "removeNewlines s = filter (\<lambda>c. c \<noteq> CHR 0x0D \<and> c \<noteq> CHR 0x0A) s"

definition URLEncoding_DecodeString :: "string \<Rightarrow> string option" where
  "URLEncoding_DecodeString s = decode True (removeNewlines s)"

definition RawURLEncoding_DecodeString :: "string \<Rightarrow> string option" where
  "RawURLEncoding_DecodeString s = decode False (removeNewlines s)"

section \<open>base64urlDecode\<close>

text \<open>
  The source tries the padded decoder first and, only when that fails, the unpadded one.
\<close>

definition base64urlDecode :: "string \<Rightarrow> error + string" where
  "base64urlDecode base64String =
     (case URLEncoding_DecodeString base64String of
        None \<Rightarrow>
          (case RawURLEncoding_DecodeString base64String of
             None \<Rightarrow> Inl (errors_New ''String did not decode as valid base64'')
           | Some idStrRaw \<Rightarrow> Inr idStrRaw)
      | Some idStr \<Rightarrow> Inr idStr)"

section \<open>The library package regexp, as far as uuidHeaderPattern needs it\<close>

text \<open>
  A pattern is a value of \<open>regexp\<close>; \<open>times n r\<close> is \<^verbatim>\<open>r{n}\<close>, \<open>Opt r\<close> is the
  greedy \<^verbatim>\<open>r?\<close>, \<open>Group r\<close> is a capturing group (the patterns here have one).
  \<open>step\<close> is a backtracking matcher: a thread is the input still to read and the text
  captured so far, and the threads are listed in the order of preference (the package's
  leftmost-first rule: an optional part is tried before its absence).
  \<open>FindStringSubmatch\<close> is for a pattern written between \<^verbatim>\<open>^\<close> and \<^verbatim>\<open>$\<close>: the
  first thread that has read the whole input gives the slice of the whole match and the
  group; no such thread gives the nil slice, of length 0.
\<close>

datatype regexp =
    Empty
  | Lit string
  | Class string
  | Seq regexp regexp
  | Opt regexp
  | Group regexp

fun times :: "nat \<Rightarrow> regexp \<Rightarrow> regexp" where
  "times 0 r = Empty"
| "times (Suc n) r = Seq r (times n r)"

fun seqs :: "regexp list \<Rightarrow> regexp" where
  "seqs [] = Empty"
| "seqs (r # rs) = Seq r (seqs rs)"

type_synonym thread = "string \<times> string option"

fun step :: "regexp \<Rightarrow> thread \<Rightarrow> thread list" where
  "step Empty t = [t]"
| "step (Lit l) (s, g) = (if take (length l) s = l then [(drop (length l) s, g)] else [])"
| "step (Class cs) (s, g) =
     (case s of [] \<Rightarrow> [] | c # s' \<Rightarrow> if c \<in> set cs then [(s', g)] else [])"
| "step (Seq a b) t = concat (map (step b) (step a t))"
| "step (Opt a) t = step a t @ [t]"
| "step (Group a) (s, g) =
     map (\<lambda>(s', _). (s', Some (take (length s - length s') s))) (step a (s, g))"

definition FindStringSubmatch :: "regexp \<Rightarrow> string \<Rightarrow> string list" where
  "FindStringSubmatch re s =
     (case filter (\<lambda>(rest, g). rest = []) (step re (s, None)) of
        [] \<Rightarrow> []
      | (rest, g) # _ \<Rightarrow> [s, (case g of None \<Rightarrow> [] | Some sub \<Rightarrow> sub)])"

definition lower :: string where
  "lower = ''abcdefghijklmnopqrstuvwxyz''"
definition hex :: string where
  "hex = ''abcdef0123456789''"

definition tokenPattern :: regexp where
  "tokenPattern =
     seqs [Opt (seqs [times 3 (Class lower), Lit ''-'']),
           times 8 (Class hex), Lit ''-'', times 4 (Class hex), Lit ''-4'',
           times 3 (Class hex), Lit ''-'', Class ''89aAbB'', times 3 (Class hex),
           Lit ''-'', times 12 (Class hex)]"

definition uuidHeaderPattern :: regexp where
  "uuidHeaderPattern = seqs [Opt (Lit ''api_key ''), Group tokenPattern]"


section \<open>The library package encoding/json, as far as the relay needs it\<close>

text \<open>
  \<open>parseJSON\<close> reads the JSON grammar (objects, arrays, strings with the single-letter
  escapes, numbers, the three literals, white space); \<open>None\<close> is a syntax error. The
  recursion is bounded by the length of the text, which is enough for any nesting the
  text can hold. Escapes of the form \<^verbatim>\<open>\uXXXX\<close> are outside the fragment modelled here
  (they are read as a syntax error), and bytes are not checked to be UTF-8.
\<close>

datatype json =
    JNull
  | JBool bool
  | JNumber string
  | JString string
  | JArray "json list"
  | JObject "(string \<times> json) list"

definition isSpace :: "char \<Rightarrow> bool" where
  "isSpace c = (c = CHR '' '' \<or> c = CHR 0x09 \<or> c = CHR 0x0A \<or> c = CHR 0x0D)"

definition skipSpace :: "string \<Rightarrow> string" where
  "skipSpace s = dropWhile isSpace s"

definition isDigit :: "char \<Rightarrow> bool" where
  "isDigit c = (c \<in> set ''0123456789'')"

definition unescape :: "char \<Rightarrow> char option" where
  "unescape e =
     (if e = CHR 0x22 \<or> e = CHR 0x5C \<or> e = CHR ''/'' then Some e
      else if e = CHR ''b'' then Some (CHR 0x08)
      else if e = CHR ''f'' then Some (CHR 0x0C)
      else if e = CHR ''n'' then Some (CHR 0x0A)
      else if e = CHR ''r'' then Some (CHR 0x0D)
      else if e = CHR ''t'' then Some (CHR 0x09)
      else None)"

fun scanString :: "string \<Rightarrow> (string \<times> string) option" where
  "scanString [] = None"
| "scanString [c] = (if c = CHR 0x22 then Some ([], []) else None)"
| "scanString (c # e # cs) =
     (if c = CHR 0x22 then Some ([], e # cs)
      else if c = CHR 0x5C then
        (case unescape e of
           None \<Rightarrow> None
         | Some x \<Rightarrow> map_option (\<lambda>(t, r). (x # t, r)) (scanString cs))
      else if (of_char c :: nat) < 32 then None
      else map_option (\<lambda>(t, r). (c # t, r)) (scanString (e # cs)))"

definition scanDigits :: "string \<Rightarrow> (string \<times> string) option" where
  "scanDigits s =
     (case takeWhile isDigit s of [] \<Rightarrow> None | ds \<Rightarrow> Some (ds, dropWhile isDigit s))"

definition scanInt :: "string \<Rightarrow> (string \<times> string) option" where
  "scanInt s =
     (case s of
        [] \<Rightarrow> None
      | c # cs \<Rightarrow>
          if c = CHR ''0'' then Some (''0'', cs)
          else if isDigit c then scanDigits s
          else None)"

definition scanFrac :: "string \<Rightarrow> (string \<times> string) option" where
  "scanFrac s =
     (case s of
        c # cs \<Rightarrow>
          if c = CHR ''.'' then map_option (\<lambda>(ds, r). (c # ds, r)) (scanDigits cs)
          else Some ([], s)
      | [] \<Rightarrow> Some ([], s))"

definition scanExp :: "string \<Rightarrow> (string \<times> string) option" where
  "scanExp s =
     (case s of
        c # cs \<Rightarrow>
          if c = CHR ''e'' \<or> c = CHR ''E'' then
            (case cs of
               d # ds \<Rightarrow>
                 if d = CHR ''+'' \<or> d = CHR ''-''
                 then map_option (\<lambda>(x, r). (c # d # x, r)) (scanDigits ds)
                 else map_option (\<lambda>(x, r). (c # x, r)) (scanDigits cs)
             | [] \<Rightarrow> None)
          else Some ([], s)
      | [] \<Rightarrow> Some ([], s))"

definition scanNumber :: "string \<Rightarrow> (string \<times> string) option" where
  "scanNumber s =
     (let (sign, s0) = (case s of c # cs \<Rightarrow> if c = CHR ''-'' then (''-'', cs) else ([], s)
                                | [] \<Rightarrow> ([], s))
      in case scanInt s0 of
           None \<Rightarrow> None
         | Some (i, s1) \<Rightarrow>
             (case scanFrac s1 of
                None \<Rightarrow> None
              | Some (f, s2) \<Rightarrow>
                  (case scanExp s2 of
                     None \<Rightarrow> None
                   | Some (e, s3) \<Rightarrow> Some (sign @ i @ f @ e, s3))))"

fun scanValue :: "nat \<Rightarrow> string \<Rightarrow> (json \<times> string) option"
  and scanElements :: "nat \<Rightarrow> string \<Rightarrow> (json list \<times> string) option"
  and scanMembers :: "nat \<Rightarrow> string \<Rightarrow> ((string \<times> json) list \<times> string) option"
where
  "scanValue 0 s = None"
| "scanValue (Suc n) s =
     (case s of
        [] \<Rightarrow> None
      | c # cs \<Rightarrow>
          if c = CHR ''{'' then
            (case skipSpace cs of
               [] \<Rightarrow> None
             | d # ds \<Rightarrow>
                 if d = CHR ''}'' then Some (JObject [], ds)
                 else map_option (\<lambda>(ms, r). (JObject ms, r)) (scanMembers n (d # ds)))
          else if c = CHR ''['' then
            (case skipSpace cs of
               [] \<Rightarrow> None
             | d # ds \<Rightarrow>
                 if d = CHR '']'' then Some (JArray [], ds)
                 else map_option (\<lambda>(vs, r). (JArray vs, r)) (scanElements n (d # ds)))
          else if c = CHR 0x22 then map_option (\<lambda>(t, r). (JString t, r)) (scanString cs)
          else if take 4 s = ''null'' then Some (JNull, drop 4 s)
          else if take 4 s = ''true'' then Some (JBool True, drop 4 s)
          else if take 5 s = ''false'' then Some (JBool False, drop 5 s)
          else map_option (\<lambda>(t, r). (JNumber t, r)) (scanNumber s))"
| "scanElements 0 s = None"
| "scanElements (Suc n) s =
     (case scanValue n s of
        None \<Rightarrow> None
      | Some (v, r) \<Rightarrow>
          (case skipSpace r of
             [] \<Rightarrow> None
           | c # cs \<Rightarrow>
               if c = CHR '']'' then Some ([v], cs)
               else if c = CHR '','' then
                 map_option (\<lambda>(vs, r'). (v # vs, r')) (scanElements n (skipSpace cs))
               else None))"
| "scanMembers 0 s = None"
| "scanMembers (Suc n) s =
     (case s of
        [] \<Rightarrow> None
      | q # s1 \<Rightarrow>
          if q \<noteq> CHR 0x22 then None
          else
            (case scanString s1 of
               None \<Rightarrow> None
             | Some (k, s2) \<Rightarrow>
                 (case skipSpace s2 of
                    [] \<Rightarrow> None
                  | c # s3 \<Rightarrow>
                      if c \<noteq> CHR '':'' then None
                      else
                        (case scanValue n (skipSpace s3) of
                           None \<Rightarrow> None
                         | Some (v, s4) \<Rightarrow>
                             (case skipSpace s4 of
                                [] \<Rightarrow> None
                              | d # s5 \<Rightarrow>
                                  if d = CHR ''}'' then Some ([(k, v)], s5)
                                  else if d = CHR '','' then
                                    map_option (\<lambda>(ms, r). ((k, v) # ms, r))
                                      (scanMembers n (skipSpace s5))
                                  else None)))))"

definition parseJSON :: "string \<Rightarrow> json option" where
  "parseJSON s =
     (case scanValue (Suc (length s)) (skipSpace s) of
        None \<Rightarrow> None
      | Some (v, r) \<Rightarrow> if skipSpace r = [] then Some v else None)"


text \<open>
  The SDK's \<^verbatim>\<open>ld.User\<close> is not declared in this repository. The relay reads one field
  of it, \<^verbatim>\<open>Key *string\<close> with the JSON name \<^verbatim>\<open>key\<close>; the other members of the JSON
  object are kept, untyped, in \<open>Attributes\<close> (so a type error in one of them is not
  modelled). A Go pointer is an \<open>option\<close>, \<open>None\<close> being nil.
\<close>

record User =
  Key :: "string option"
  Attributes :: "(string \<times> json) list"

definition zeroUser :: User where
  "zeroUser = \<lparr>Key = None, Attributes = []\<rparr>"

text \<open>
  The package matches an object's member names to field names without regard to case.
  The folding modelled here is the ASCII one; the package also folds the Kelvin sign
  (U+212A) to \<^verbatim>\<open>k\<close>, which is not modelled.
\<close>

definition toLowerASCII :: "char \<Rightarrow> char" where
  "toLowerASCII c =
     (if c \<in> set ''ABCDEFGHIJKLMNOPQRSTUVWXYZ'' then char_of (of_char c + (32::nat)) else c)"

fun decodeMembers :: "(string \<times> json) list \<Rightarrow> User \<Rightarrow> error + User" where
  "decodeMembers [] u = Inr u"
| "decodeMembers ((name, v) # ms) u =
     (if map toLowerASCII name = ''key'' then
        (case v of
           JString s \<Rightarrow> decodeMembers ms (u\<lparr>Key := Some s\<rparr>)
         | JNull \<Rightarrow> decodeMembers ms (u\<lparr>Key := None\<rparr>)
         | _ \<Rightarrow> Inl json_UnmarshalTypeError)
      else decodeMembers ms (u\<lparr>Attributes := Attributes u @ [(name, v)]\<rparr>))"

text \<open>
  \<^verbatim>\<open>json.Unmarshal(data, &user)\<close> with \<^verbatim>\<open>user\<close> of type \<^verbatim>\<open>ld.User\<close> (a struct holding
  its zero value): the JSON \<^verbatim>\<open>null\<close> leaves the struct as it is and is no error; an
  object fills it; any other JSON value is a type error.
\<close>

definition json_Unmarshal_User :: "string \<Rightarrow> error + User" where
  "json_Unmarshal_User data =
     (case parseJSON data of
        None \<Rightarrow> Inl json_SyntaxError
      | Some JNull \<Rightarrow> Inr zeroUser
      | Some (JObject ms) \<Rightarrow> decodeMembers ms zeroUser
      | Some _ \<Rightarrow> Inl json_UnmarshalTypeError)"

text \<open>
  \<^verbatim>\<open>json.Unmarshal(body, &user)\<close> with \<^verbatim>\<open>user\<close> of type \<^verbatim>\<open>*ld.User\<close> (a nil pointer):
  the JSON \<^verbatim>\<open>null\<close> sets the pointer to nil and is no error; for any other value a new
  struct is allocated and filled as above.
\<close>

definition json_Unmarshal_UserPtr :: "string \<Rightarrow> error + User option" where
  "json_Unmarshal_UserPtr data =
     (case parseJSON data of
        None \<Rightarrow> Inl json_SyntaxError
      | Some JNull \<Rightarrow> Inr None
      | Some (JObject ms) \<Rightarrow> map_sum id Some (decodeMembers ms zeroUser)
      | Some _ \<Rightarrow> Inl json_UnmarshalTypeError)"

section \<open>Requests, responses and the relay's data\<close>

text \<open>
  \<^verbatim>\<open>flagReader\<close> is the interface of the SDK client: the model keeps what the relay
  asks of it, the readiness bit (\<^verbatim>\<open>Initialized()\<close>) and the evaluator
  (\<^verbatim>\<open>AllFlags(user)\<close>, whose result is held as the JSON value it marshals to). An
  \<^verbatim>\<open>http.Handler\<close> built by the relay is named by the constructor that built it and the
  key it was built for.
\<close>

datatype flagReader = LDClient (Initialized: bool) (AllFlags: "User \<Rightarrow> json")

datatype Handler = publisher_Handler string | newRelayHandler string

text \<open>
  A Go map whose values are interfaces: a key may be absent (\<open>None\<close>), present with the
  nil interface (\<open>Some None\<close>) or present with a value. Indexing gives nil for an absent
  key.
\<close>

type_synonym 'v gomap = "string \<rightharpoonup> 'v option"

definition index :: "'v gomap \<Rightarrow> string \<Rightarrow> 'v option" where
  "index m k = (case m k of None \<Rightarrow> None | Some v \<Rightarrow> v)"

text \<open>The value stored in the request's context under the name \<^verbatim>\<open>"context"\<close>.\<close>

datatype ContextValue =
    NoContext
  | ClientContext flagReader
  | HandlerContext Handler

record Request =
  Method :: string
  Header :: "string \<rightharpoonup> string"
  Vars :: "string \<rightharpoonup> string"
  Body :: string
  Context :: ContextValue

definition Header_Get :: "(string \<rightharpoonup> string) \<Rightarrow> string \<Rightarrow> string" where
  "Header_Get h k = (case h k of None \<Rightarrow> [] | Some v \<Rightarrow> v)"

definition mux_Vars :: "Request \<Rightarrow> string \<Rightarrow> string" where
  "mux_Vars req k = (case Vars req k of None \<Rightarrow> [] | Some v \<Rightarrow> v)"

text \<open>
  What a handler has done: the response headers, the status code (\<open>None\<close> until it is
  written), the body as the list of the chunks written, and the calls made to the
  relay's collaborators, oldest first. A chunk is literal text or the bytes that
  \<^verbatim>\<open>json.Marshal\<close> gives for a value.
\<close>

datatype StatusEntry = StatusEntry string

datatype chunk =
    Bytes string
  | Marshal_errorJson string
  | Marshal_flags json
  | Marshal_status "string \<rightharpoonup> StatusEntry" string

datatype effect =
    Call_AllFlags User
  | Call_ServeHTTP Handler
  | Call_Do string string

record ResponseWriter =
  RespHeader :: "string \<rightharpoonup> string"
  Status :: "nat option"
  RespBody :: "chunk list"
  Calls :: "effect list"

definition newResponseWriter :: ResponseWriter where
  "newResponseWriter = \<lparr>RespHeader = Map.empty, Status = None, RespBody = [], Calls = []\<rparr>"

definition Header_Set :: "ResponseWriter \<Rightarrow> string \<Rightarrow> string \<Rightarrow> ResponseWriter" where
  "Header_Set w k v = w\<lparr>RespHeader := (RespHeader w)(k \<mapsto> v)\<rparr>"

text \<open>The first \<^verbatim>\<open>WriteHeader\<close> fixes the status; a \<^verbatim>\<open>Write\<close> before it implies 200.\<close>

definition WriteHeader :: "ResponseWriter \<Rightarrow> nat \<Rightarrow> ResponseWriter" where
  "WriteHeader w code = (if Status w = None then w\<lparr>Status := Some code\<rparr> else w)"

definition Write :: "ResponseWriter \<Rightarrow> chunk \<Rightarrow> ResponseWriter" where
  "Write w c = (WriteHeader w 200)\<lparr>RespBody := RespBody w @ [c]\<rparr>"

definition called :: "ResponseWriter \<Rightarrow> effect \<Rightarrow> ResponseWriter" where
  "called w e = w\<lparr>Calls := Calls w @ [e]\<rparr>"

text \<open>
  A handler returns, or panics (a run-time error: the server drops the connection and
  no response is delivered).
\<close>

datatype outcome = Return ResponseWriter | Panic string

type_synonym HandlerFunc = "ResponseWriter \<Rightarrow> Request \<Rightarrow> outcome"

record clientMuxHandler =
  clients :: "flagReader gomap"
  baseUri :: string

record eventsMuxHandler =
  eventHandlers :: "Handler gomap"

record streamMuxHandler =
  streamHandlers :: "Handler gomap"

section \<open>fetchAuthToken and authorizeMethod\<close>

definition fetchAuthToken :: "Request \<Rightarrow> error + string" where
  "fetchAuthToken req =
     (let authHdr = Header_Get (Header req) ''Authorization'';
          match = FindStringSubmatch uuidHeaderPattern authHdr
      in if length match = 2 then Inr (match ! 1)
         else Inl (errors_New ''No valid token found''))"

text \<open>
  \<open>authorizeMethod\<close> takes the map as an \<^verbatim>\<open>interface{}\<close> and switches on its type;
  \<open>OtherMap\<close> is any value of another type. It writes to the response and returns the
  entry found or an error: the model returns the response writer with them.
\<close>

datatype authKeyMap =
    ClientMap "flagReader gomap"
  | HandlerMap "Handler gomap"
  | OtherMap

datatype entry = ClientEntry flagReader | HandlerEntry Handler

definition authorizeMethod ::
  "authKeyMap \<Rightarrow> ResponseWriter \<Rightarrow> Request \<Rightarrow> ResponseWriter \<times> (error + entry)" where
  "authorizeMethod authKeyMap w req =
     (case fetchAuthToken req of
        Inl err \<Rightarrow> (WriteHeader w 401, Inl (errors_New ''Unauthorized''))
      | Inr authKey \<Rightarrow>
          (let ctx = (case authKeyMap of
                        ClientMap m \<Rightarrow> Inr (map_option ClientEntry (index m authKey))
                      | HandlerMap m \<Rightarrow> Inr (map_option HandlerEntry (index m authKey))
                      | OtherMap \<Rightarrow> Inl (errors_New ''Unknown error''))
           in case ctx of
                Inl err \<Rightarrow> (w, Inl err)
              | Inr None \<Rightarrow>
                  (Write (WriteHeader w 401)
                     (Bytes ''ld-relay is not configured for the provided key''),
                   Inl (errors_New ''Unauthorized''))
              | Inr (Some e) \<Rightarrow> (w, Inr e)))"

text \<open>
  The three wrappers. The type assertions \<^verbatim>\<open>client.(flagReader)\<close> and
  \<^verbatim>\<open>handler.(http.Handler)\<close> panic on an entry of the other kind.
\<close>

definition clientMuxHandler_authorizeMethod ::
  "clientMuxHandler \<Rightarrow> HandlerFunc \<Rightarrow> HandlerFunc" where
  "clientMuxHandler_authorizeMethod m next w req =
     (case authorizeMethod (ClientMap (clients m)) w req of
        (w', Inl err) \<Rightarrow> Return w'
      | (w', Inr (ClientEntry client)) \<Rightarrow> next w' (req\<lparr>Context := ClientContext client\<rparr>)
      | (w', Inr (HandlerEntry h)) \<Rightarrow> Panic ''interface conversion'')"

definition eventsMuxHandler_authorizeMethod ::
  "eventsMuxHandler \<Rightarrow> HandlerFunc \<Rightarrow> HandlerFunc" where
  "eventsMuxHandler_authorizeMethod m next w req =
     (case authorizeMethod (HandlerMap (eventHandlers m)) w req of
        (w', Inl err) \<Rightarrow> Return w'
      | (w', Inr (HandlerEntry handler)) \<Rightarrow>
          next w' (req\<lparr>Context := HandlerContext handler\<rparr>)
      | (w', Inr (ClientEntry c)) \<Rightarrow> Panic ''interface conversion'')"

definition streamMuxHandler_authorizeMethod ::
  "streamMuxHandler \<Rightarrow> HandlerFunc \<Rightarrow> HandlerFunc" where
  "streamMuxHandler_authorizeMethod m next w req =
     (case authorizeMethod (HandlerMap (streamHandlers m)) w req of
        (w', Inl err) \<Rightarrow> Return w'
      | (w', Inr (HandlerEntry handler)) \<Rightarrow>
          next w' (req\<lparr>Context := HandlerContext handler\<rparr>)
      | (w', Inr (ClientEntry c)) \<Rightarrow> Panic ''interface conversion'')"

definition serveHandler :: HandlerFunc where
  "serveHandler w req =
     (case Context req of
        HandlerContext handler \<Rightarrow> Return (called w (Call_ServeHTTP handler))
      | _ \<Rightarrow> Panic ''interface conversion'')"

section \<open>findEnvironment and getGoals\<close>

definition findEnvironment :: "clientMuxHandler \<Rightarrow> HandlerFunc \<Rightarrow> HandlerFunc" where
  "findEnvironment m next w req =
     (let w1 = Header_Set w ''Access-Control-Allow-Origin'' ''*'';
          envId = mux_Vars req ''envId''
      in case index (clients m) envId of
           None \<Rightarrow>
             Return (Write (WriteHeader w1 404)
                       (Bytes (''ld-relay is not configured for environment id '' @ envId)))
         | Some client \<Rightarrow> next w1 (req\<lparr>Context := ClientContext client\<rparr>))"

text \<open>
  The network, as \<open>getGoals\<close> meets it. \<^verbatim>\<open>http.NewRequest\<close> fails exactly when the URL
  does not parse (\<open>parses\<close>); its error is discarded by the source, which then uses the
  nil request. \<^verbatim>\<open>httpClient.Do\<close> (\<open>Do\<close>, given the URL and the Authorization header
  sent) fails or gives the upstream's response. The caching transport is made anew for
  every call, so each call starts from an empty cache and \<open>Do\<close> is the upstream itself.
\<close>

record Response =
  StatusCode :: nat
  ResHeader :: "string \<rightharpoonup> string list"
  ResBody :: string

record Net =
  parses :: "string \<Rightarrow> bool"
  Do :: "string \<Rightarrow> string \<Rightarrow> error + Response"

definition getGoals :: "Net \<Rightarrow> clientMuxHandler \<Rightarrow> HandlerFunc" where
  "getGoals net m w req =
     (let w1 = Header_Set w ''Access-Control-Allow-Origin'' ''*'';
          envId = mux_Vars req ''envId'';
          url = baseUri m @ ''/sdk/goals/'' @ envId
      in if \<not> parses net url then Panic ''nil pointer dereference''
         else
           (let authorization = Header_Get (Header req) ''Authorization'';
                w2 = called w1 (Call_Do url authorization)
            in case Do net url authorization of
                 Inl err \<Rightarrow> Return (WriteHeader w2 500)
               | Inr res \<Rightarrow>
                   (case ResHeader res ''Content-Type'' of
                      None \<Rightarrow> Panic ''index out of range''
                    | Some [] \<Rightarrow> Panic ''index out of range''
                    | Some (contentType # _) \<Rightarrow>
                        Return (Write (WriteHeader (Header_Set w2 ''Content-Type'' contentType)
                                         (StatusCode res))
                                  (Bytes (ResBody res))))))"

section \<open>evaluateAllFeatureFlags\<close>

definition ErrorJsonMsg :: "string \<Rightarrow> chunk" where
  "ErrorJsonMsg msg = Marshal_errorJson msg"

definition UserV2FromBase64 :: "string \<Rightarrow> error + User" where
  "UserV2FromBase64 base64User =
     (case base64urlDecode base64User of
        Inl decodeErr \<Rightarrow>
          Inl (errors_New ''User part of url path did not decode as valid base64'')
      | Inr idStr \<Rightarrow>
          (case json_Unmarshal_User idStr of
             Inl jsonErr \<Rightarrow>
               Inl (errors_New ''User part of url path did not decode to valid user as json'')
           | Inr user \<Rightarrow>
               if Key user = None then Inl (errors_New ''User must have a 'key' attribute'')
               else Inr user))"

text \<open>
  \<^verbatim>\<open>user\<close> is a pointer: the REPORT branch lets \<^verbatim>\<open>json.Unmarshal\<close> set it, the other
  branch takes the address of the struct \<open>UserV2FromBase64\<close> returns. The source checks
  the error, asserts the context to be a \<^verbatim>\<open>ClientContext\<close>, then dereferences the
  pointer for the call of \<^verbatim>\<open>AllFlags\<close>.
\<close>

definition evaluateAllFeatureFlags :: HandlerFunc where
  "evaluateAllFeatureFlags w req =
     (if Method req = ''REPORT''
         \<and> Header_Get (Header req) ''Content-Type'' \<noteq> ''application/json''
      then Return (Write (WriteHeader w 415) (Bytes ''Content-Type must be application/json.''))
      else
        (case (if Method req = ''REPORT'' then json_Unmarshal_UserPtr (Body req)
               else map_sum id Some (UserV2FromBase64 (mux_Vars req ''user''))) of
           Inl userDecodeErr \<Rightarrow>
             Return (Write (WriteHeader w 400) (ErrorJsonMsg (Error userDecodeErr)))
         | Inr user \<Rightarrow>
             (case Context req of
                ClientContext client \<Rightarrow>
                  (case user of
                     None \<Rightarrow> Panic ''nil pointer dereference''
                   | Some u \<Rightarrow>
                       Return (Write
                                 (WriteHeader
                                    (Header_Set (called w (Call_AllFlags u))
                                       ''Content-Type'' ''application/json'')
                                    200)
                                 (Marshal_flags (AllFlags client u))))
              | _ \<Rightarrow> Panic ''interface conversion'')))"

section \<open>getStatus\<close>

text \<open>
  \<^verbatim>\<open>range\<close> visits every key of the map once, in an order the language leaves open:
  the order is the parameter \<open>keys\<close>. Every client of the relay is an
  \<^verbatim>\<open>*ld.LDClient\<close>, so the type assertion in the loop holds.
\<close>

definition statusStep ::
  "clientMuxHandler \<Rightarrow> string \<Rightarrow> (string \<rightharpoonup> StatusEntry) \<times> bool
     \<Rightarrow> (string \<rightharpoonup> StatusEntry) \<times> bool" where
  "statusStep m k acc =
     (case acc of
        (envs, healthy) \<Rightarrow>
          (case index (clients m) k of
             None \<Rightarrow> (envs(k \<mapsto> StatusEntry ''disconnected''), False)
           | Some client \<Rightarrow>
               if Initialized client then (envs(k \<mapsto> StatusEntry ''connected''), healthy)
               else (envs(k \<mapsto> StatusEntry ''disconnected''), False)))"

definition getStatus :: "clientMuxHandler \<Rightarrow> string list \<Rightarrow> HandlerFunc" where
  "getStatus m keys w req =
     (let w1 = Header_Set w ''Content-Type'' ''application/json'';
          (envs, healthy) = fold (statusStep m) keys (Map.empty, True)
      in Return (Write w1 (Marshal_status envs (if healthy then ''healthy'' else ''degraded''))))"

section \<open>The start of one environment in main\<close>

text \<open>
  \<open>main\<close> first stores nil under every server key in \<open>clients\<close>, then starts one
  goroutine per environment. \<open>startEnvironment\<close> is the body of that goroutine, as a
  step on the five maps: \<open>made\<close> is what \<^verbatim>\<open>ld.MakeCustomClient\<close> returned, the client
  and the error (\<open>None\<close> for nil). The client is a \<^verbatim>\<open>*ld.LDClient\<close> stored in an
  interface, which is therefore never the nil interface. \<^verbatim>\<open>os.Exit(1)\<close> ends the
  process: \<open>Exit 1\<close>.
\<close>

record EnvConfig =
  ApiKey :: string
  MobileKey :: "string option"
  EnvId :: "string option"
  Prefix :: string

record Config =
  ExitOnError :: bool
  IgnoreConnectionErrors :: bool
  BaseUri :: string
  SendEvents :: bool

record Maps =
  m_clients :: "flagReader gomap"
  m_mobileClients :: "flagReader gomap"
  m_clientSideClients :: "flagReader gomap"
  m_handlers :: "Handler gomap"
  m_eventHandlers :: "Handler gomap"

datatype process = Exit nat | Running Maps

definition initialMaps :: "EnvConfig list \<Rightarrow> Maps" where
  "initialMaps envs =
     \<lparr>m_clients = fold (\<lambda>envConfig cs. cs(ApiKey envConfig \<mapsto> None)) envs Map.empty,
      m_mobileClients = Map.empty,
      m_clientSideClients = Map.empty,
      m_handlers = Map.empty,
      m_eventHandlers = Map.empty\<rparr>"

definition startEnvironment ::
  "Config \<Rightarrow> EnvConfig \<Rightarrow> flagReader \<times> error option \<Rightarrow> Maps \<Rightarrow> process" where
  "startEnvironment c envConfig made maps =
     (case made of
        (client, err) \<Rightarrow>
          (let maps1 = maps\<lparr>m_clients := (m_clients maps)(ApiKey envConfig \<mapsto> Some client)\<rparr>;
               maps2 = (case MobileKey envConfig of
                          None \<Rightarrow> maps1
                        | Some k \<Rightarrow>
                            if k \<noteq> [] then
                              maps1\<lparr>m_mobileClients :=
                                      (m_mobileClients maps1)(k \<mapsto> Some client)\<rparr>
                            else maps1);
               maps3 = (case EnvId envConfig of
                          None \<Rightarrow> maps2
                        | Some k \<Rightarrow>
                            if k \<noteq> [] then
                              maps2\<lparr>m_clientSideClients :=
                                      (m_clientSideClients maps2)(k \<mapsto> Some client)\<rparr>
                            else maps2)
           in if err \<noteq> None \<and> \<not> IgnoreConnectionErrors c then
                (if ExitOnError c then Exit 1 else Running maps3)
              else
                (let maps4 = maps3\<lparr>m_handlers :=
                                     (m_handlers maps3)
                                       (ApiKey envConfig \<mapsto>
                                          Some (publisher_Handler (ApiKey envConfig)))\<rparr>
                 in if SendEvents c then
                      Running (maps4\<lparr>m_eventHandlers :=
                                        (m_eventHandlers maps4)
                                          (ApiKey envConfig \<mapsto>
                                             Some (newRelayHandler (ApiKey envConfig)))\<rparr>)
                    else Running maps4)))"

text \<open>The handlers \<open>main\<close> builds over the maps, and the routes it registers on them.\<close>

definition clientsHandler :: "Maps \<Rightarrow> clientMuxHandler" where
  "clientsHandler maps = \<lparr>clients = m_clients maps, baseUri = []\<rparr>"

definition mobileClientsHandler :: "Maps \<Rightarrow> clientMuxHandler" where
  "mobileClientsHandler maps = \<lparr>clients = m_mobileClients maps, baseUri = []\<rparr>"

definition clientSideClientsHandler :: "Config \<Rightarrow> Maps \<Rightarrow> clientMuxHandler" where
  "clientSideClientsHandler c maps =
     \<lparr>clients = m_clientSideClients maps, baseUri = BaseUri c\<rparr>"

definition streamHandler :: "Maps \<Rightarrow> streamMuxHandler" where
  "streamHandler maps = \<lparr>streamHandlers = m_handlers maps\<rparr>"

definition bulkEventHandler :: "Maps \<Rightarrow> eventsMuxHandler" where
  "bulkEventHandler maps = \<lparr>eventHandlers = m_eventHandlers maps\<rparr>"

section \<open>Notions used to state the properties\<close>

text \<open>
  \<open>complete\<close> keeps the threads that have read the whole input; \<open>matchesToken t\<close> says
  that the token part of the pattern (the optional three-letter prefix and the version-4
  UUID) matches the whole of \<open>t\<close>. \<open>withAuthorization req v\<close> is \<open>req\<close> with the
  Authorization header \<open>v\<close>; \<open>request0\<close> is a GET request with no header, no path
  variable and an empty body.
\<close>

definition complete :: "thread list \<Rightarrow> thread list" where
  "complete ts = filter (\<lambda>(rest, g). rest = []) ts"

definition matchesToken :: "string \<Rightarrow> bool" where
  "matchesToken t = (complete (step tokenPattern (t, None)) \<noteq> [])"

definition withAuthorization :: "Request \<Rightarrow> string \<Rightarrow> Request" where
  "withAuthorization req v = req\<lparr>Header := (Header req)(''Authorization'' \<mapsto> v)\<rparr>"

definition request0 :: Request where
  "request0 = \<lparr>Method = ''GET'', Header = Map.empty, Vars = Map.empty, Body = [],
                Context = NoContext\<rparr>"

text \<open>
  \<open>statusOf\<close> is the status code a handler's outcome delivers (none after a panic).
  \<open>connected m k\<close> is the status endpoint's notion of a connected credential: the
  client stored under \<open>k\<close> is not nil and reports that it is initialised.
\<close>

definition statusOf :: "outcome \<Rightarrow> nat option" where
  "statusOf out = (case out of Return w \<Rightarrow> Status w | Panic msg \<Rightarrow> None)"

definition connected :: "clientMuxHandler \<Rightarrow> string \<Rightarrow> bool" where
  "connected m k =
     (case index (clients m) k of None \<Rightarrow> False | Some client \<Rightarrow> Initialized client)"

text \<open>
  Concrete data for the examples: a configuration with neither failure flag set, an
  environment with a server key only, a client that is not initialised and evaluates
  every user to the empty flag set, requests for the evaluation and goals routes, a
  handler for the browser routes that knows one environment id, an upstream that
  answers 404 with no header and no body, and a server map with an initialised client,
  a client that is not initialised and a nil entry.
\<close>

definition config0 :: Config where
  "config0 = \<lparr>ExitOnError = False, IgnoreConnectionErrors = False,
               BaseUri = ''https://app.launchdarkly.com'', SendEvents = False\<rparr>"

definition env0 :: EnvConfig where
  "env0 = \<lparr>ApiKey = ''sdk-01234567-89ab-4cde-8f01-23456789abcd'', MobileKey = None,
            EnvId = None, Prefix = []\<rparr>"

definition client0 :: flagReader where
  "client0 = LDClient False (\<lambda>user. JObject [])"

definition evalRequest0 :: Request where
  "evalRequest0 =
     \<lparr>Method = ''GET'',
      Header = [''Authorization'' \<mapsto> ''sdk-01234567-89ab-4cde-8f01-23456789abcd''],
      Vars = [''user'' \<mapsto> ''eyJrZXkiOiJ1In0=''],
      Body = [],
      Context = NoContext\<rparr>"

definition reportRequest0 :: "string \<Rightarrow> string \<Rightarrow> Request" where
  "reportRequest0 contentType body =
     \<lparr>Method = ''REPORT'',
      Header = [''Content-Type'' \<mapsto> contentType],
      Vars = Map.empty,
      Body = body,
      Context = ClientContext client0\<rparr>"

definition goalsRequest0 :: Request where
  "goalsRequest0 =
     \<lparr>Method = ''GET'',
      Header = [''Authorization'' \<mapsto> ''sdk-01234567-89ab-4cde-8f01-23456789abcd''],
      Vars = [''envId'' \<mapsto> ''0123456789abcdef01234567''],
      Body = [],
      Context = NoContext\<rparr>"

definition browserHandler0 :: clientMuxHandler where
  "browserHandler0 =
     \<lparr>clients = [''0123456789abcdef01234567'' \<mapsto> Some client0],
      baseUri = ''https://app.launchdarkly.com''\<rparr>"

definition net0 :: Net where
  "net0 = \<lparr>parses = (\<lambda>url. True),
            Do = (\<lambda>url authorization.
                    Inr \<lparr>StatusCode = 404, ResHeader = Map.empty, ResBody = []\<rparr>)\<rparr>"

definition statusHandler0 :: clientMuxHandler where
  "statusHandler0 =
     \<lparr>clients = [''sdk-a'' \<mapsto> Some (LDClient True (\<lambda>user. JObject [])),
                  ''sdk-b'' \<mapsto> Some client0,
                  ''sdk-c'' \<mapsto> None],
      baseUri = []\<rparr>"

section \<open>Facts about the base64 model\<close>

lemma decodeMap_enc6: "decodeMap (enc6 v) = Some (v mod 64)"
proof -
  have "\<forall>i \<in> set [0..<64]. index_of (encodeURL ! i) encodeURL = Some i"
    unfolding encodeURL_def by code_simp
  then show ?thesis by (simp add: decodeMap_def enc6_def)
qed

lemma enc6_plain:
  "enc6 v \<noteq> CHR ''='' \<and> enc6 v \<noteq> CHR 0x0A \<and> enc6 v \<noteq> CHR 0x0D"
proof -
  have "\<forall>i \<in> set [0..<64]. encodeURL ! i \<noteq> CHR ''='' \<and> encodeURL ! i \<noteq> CHR 0x0A
          \<and> encodeURL ! i \<noteq> CHR 0x0D"
    unfolding encodeURL_def by code_simp
  then show ?thesis by (simp add: enc6_def)
qed

lemma base64_digits:
  assumes "n < 2 ^ 24"
  shows "quantum (n div 2 ^ 18 mod 64) (n div 2 ^ 12 mod 64) (n div 2 ^ 6 mod 64) (n mod 64)
           = (n::nat)"
proof -
  define n1 where "n1 = n div 64"
  define n2 where "n2 = n1 div 64"
  define n3 where "n3 = n2 div 64"
  have e2: "n div 4096 = n2"
    using div_mult2_eq [of n 64 64] by (simp add: n1_def n2_def)
  have e3: "n div 262144 = n3"
    using div_mult2_eq [of n 4096 64] e2 by (simp add: n3_def)
  have s: "n3 < 64" using assms e3 by (simp add: less_mult_imp_div_less)
  have a: "n = n1 * 64 + n mod 64" by (simp add: n1_def)
  have b: "n1 = n2 * 64 + n1 mod 64" by (simp add: n2_def)
  have c: "n2 = n3 * 64 + n2 mod 64" by (simp add: n3_def)
  have "n3 * 262144 + n2 mod 64 * 4096 + n1 mod 64 * 64 + n mod 64 = n"
    using a b c by linarith
  then show ?thesis using s by (simp add: quantum_def e2 e3 n1_def [symmetric])
qed

lemma pack_bound: "of_char a * 65536 + of_char b * 256 + (of_char c :: nat) < 2 ^ 24"
proof -
  have "of_char a < (256::nat)" "of_char b < (256::nat)" "of_char c < (256::nat)" by simp_all
  then have "of_char a * 65536 + of_char b * 256 + (of_char c :: nat) < 16777216" by linarith
  then show ?thesis by simp
qed

lemma byte_hi: "byte ((of_char a * 65536 + of_char b * 256 + of_char c) div 2 ^ 16) = a"
proof -
  have "of_char b < (256::nat)" "of_char c < (256::nat)" by simp_all
  then have "(of_char a * 65536 + of_char b * 256 + of_char c) div 65536 = (of_char a :: nat)"
    by linarith
  then show ?thesis by (simp add: byte_def)
qed

lemma byte_mid: "byte ((of_char a * 65536 + of_char b * 256 + of_char c) div 2 ^ 8) = b"
proof -
  have "of_char c < (256::nat)" by simp
  then have "(of_char a * 65536 + of_char b * 256 + of_char c) div 256
               = of_char a * 256 + (of_char b :: nat)"
    by linarith
  then show ?thesis by (simp add: byte_def char_of_eq_iff take_bit_eq_mod)
qed

lemma byte_lo: "byte (of_char a * 65536 + of_char b * 256 + of_char c) = c"
proof -
  have "of_char a * 65536 + of_char b * 256 + of_char c
          = of_char c + 256 * (of_char a * 256 + (of_char b :: nat))" by simp
  then have "(of_char a * 65536 + of_char b * 256 + of_char c) mod 256 = (of_char c :: nat)"
    by (simp only: mod_mult_self2 of_char_mod_256)
  then show ?thesis by (simp add: byte_def char_of_eq_iff take_bit_eq_mod)
qed

lemma decodeMap_pad: "decodeMap CHR ''='' = None"
  unfolding decodeMap_def encodeURL_def by code_simp

lemma decode4:
  "decode pad (enc6 v0 # enc6 v1 # enc6 v2 # enc6 v3 # cs) =
     map_option
       ((@) [byte (quantum (v0 mod 64) (v1 mod 64) (v2 mod 64) (v3 mod 64) div 2 ^ 16),
             byte (quantum (v0 mod 64) (v1 mod 64) (v2 mod 64) (v3 mod 64) div 2 ^ 8),
             byte (quantum (v0 mod 64) (v1 mod 64) (v2 mod 64) (v3 mod 64))])
       (decode pad cs)"
proof -
  have "(\<lambda>r. [x, y, z] @ r) = (@) [x, y, z]" for x y z :: char by (rule ext) simp
  then show ?thesis by (simp only: decode.simps decodeMap_enc6 option.case list.case prod.case)
qed

lemma decode3:
  "decode pad [enc6 v0, enc6 v1, enc6 v2] =
     (if pad then None
      else Some [byte (quantum (v0 mod 64) (v1 mod 64) (v2 mod 64) 0 div 2 ^ 16),
                 byte (quantum (v0 mod 64) (v1 mod 64) (v2 mod 64) 0 div 2 ^ 8)])"
  by (simp only: decode.simps decodeMap_enc6 option.case list.case prod.case)

lemma decode3_pad:
  "decode True [enc6 v0, enc6 v1, enc6 v2, CHR ''=''] =
     Some [byte (quantum (v0 mod 64) (v1 mod 64) (v2 mod 64) 0 div 2 ^ 16),
           byte (quantum (v0 mod 64) (v1 mod 64) (v2 mod 64) 0 div 2 ^ 8)]"
  by (simp only: decode.simps decodeMap_enc6 decodeMap_pad option.case list.case prod.case
        simp_thms if_True)

lemma decode2:
  "decode pad [enc6 v0, enc6 v1] =
     (if pad then None else Some [byte (quantum (v0 mod 64) (v1 mod 64) 0 0 div 2 ^ 16)])"
  by (simp only: decode.simps decodeMap_enc6 option.case list.case prod.case)

lemma decode2_pad:
  "decode True [enc6 v0, enc6 v1, CHR ''='', CHR ''=''] =
     Some [byte (quantum (v0 mod 64) (v1 mod 64) 0 0 div 2 ^ 16)]"
  by (simp only: decode.simps decodeMap_enc6 decodeMap_pad option.case list.case prod.case
        simp_thms if_True)

lemma quantum3:
  "quantum ((of_char a * 65536 + of_char b * 256 + of_char c) div 2 ^ 18 mod 64)
     ((of_char a * 65536 + of_char b * 256 + of_char c) div 2 ^ 12 mod 64)
     ((of_char a * 65536 + of_char b * 256 + of_char c) div 2 ^ 6 mod 64)
     ((of_char a * 65536 + of_char b * 256 + of_char c) mod 64)
   = of_char a * 65536 + of_char b * 256 + of_char c"
  by (rule base64_digits) (rule pack_bound)

lemma quantum2:
  "quantum ((of_char a * 65536 + of_char b * 256) div 2 ^ 18 mod 64)
     ((of_char a * 65536 + of_char b * 256) div 2 ^ 12 mod 64)
     ((of_char a * 65536 + of_char b * 256) div 2 ^ 6 mod 64) 0
   = of_char a * 65536 + of_char b * 256 + of_char (CHR 0x00)"
proof -
  define n :: nat where "n = of_char a * 65536 + of_char b * 256"
  have "n = 64 * (of_char a * 1024 + of_char b * 4)" by (simp add: n_def)
  then have m: "n mod 64 = 0" by (simp only: mod_mult_self1_is_0)
  have "n < 2 ^ 24" using pack_bound [of a b "CHR 0x00"] by (simp add: n_def)
  from base64_digits [OF this] have
    "quantum (n div 2 ^ 18 mod 64) (n div 2 ^ 12 mod 64) (n div 2 ^ 6 mod 64) 0 = n"
    by (simp only: m)
  moreover have "n = of_char a * 65536 + of_char b * 256 + of_char (CHR 0x00)"
    by (simp add: n_def)
  ultimately show ?thesis unfolding n_def by (simp only:)
qed

lemma quantum1:
  "quantum (of_char a * 65536 div 2 ^ 18 mod 64) (of_char a * 65536 div 2 ^ 12 mod 64) 0 0
   = of_char a * 65536 + of_char (CHR 0x00) * 256 + of_char (CHR 0x00)"
proof -
  define n :: nat where "n = of_char a * 65536"
  have "n = 64 * (of_char a * 1024)" by (simp add: n_def)
  then have m: "n mod 64 = 0" by (simp only: mod_mult_self1_is_0)
  have "n div 2 ^ 6 = 64 * (of_char a * 16)" by (simp add: n_def)
  then have m2: "n div 2 ^ 6 mod 64 = 0" by (simp only: mod_mult_self1_is_0)
  have "n < 2 ^ 24" using pack_bound [of a "CHR 0x00" "CHR 0x00"] by (simp add: n_def)
  from base64_digits [OF this] have
    "quantum (n div 2 ^ 18 mod 64) (n div 2 ^ 12 mod 64) 0 0 = n"
    by (simp only: m m2)
  moreover have "n = of_char a * 65536 + of_char (CHR 0x00) * 256 + of_char (CHR 0x00)"
    by (simp add: n_def)
  ultimately show ?thesis unfolding n_def by (simp only:)
qed

lemmas unfold_Encode = Encode.simps Let_def append.simps if_True if_False option.map
  list.inject option.inject simp_thms

lemma decode_Encode: "decode pad (Encode pad bs) = Some bs"
proof (induction pad bs rule: Encode.induct)
  case (1 pad b0 b1 b2 rest)
  then show ?case
    by (simp only: unfold_Encode decode4 quantum3 byte_hi byte_mid byte_lo)
next
  case (2 pad b0 b1)
  show ?case
    by (cases pad) (simp_all only: unfold_Encode decode3 decode3_pad quantum2 byte_hi byte_mid)
next
  case (3 pad b0)
  show ?case
    by (cases pad) (simp_all only: unfold_Encode decode2 decode2_pad quantum1 byte_hi)
next
  case (4 pad)
  show ?case by simp
qed

lemma decode_padded_of_raw:
  "decode True (Encode False bs) = (if length bs mod 3 = 0 then Some bs else None)"
proof (induction "False" bs rule: Encode.induct)
  case (1 b0 b1 b2 rest)
  have l: "length (b0 # b1 # b2 # rest) mod 3 = length rest mod 3" by simp
  have "decode True (Encode False (b0 # b1 # b2 # rest))
          = map_option ((@) [b0, b1, b2]) (decode True (Encode False rest))"
    by (simp only: unfold_Encode decode4 quantum3 byte_hi byte_mid byte_lo)
  also have "\<dots> = (if length rest mod 3 = 0 then Some (b0 # b1 # b2 # rest) else None)"
    using 1 by simp
  finally show ?case by (simp only: l)
next
  case (2 b0 b1)
  show ?case by (simp only: unfold_Encode decode3) simp
next
  case (3 b0)
  show ?case by (simp only: unfold_Encode decode2) simp
next
  case 4
  show ?case by simp
qed

lemma removeNewlines_Encode: "removeNewlines (Encode pad bs) = Encode pad bs"
  by (induction pad bs rule: Encode.induct) (simp_all add: removeNewlines_def Let_def enc6_plain)


text \<open>
  C3. For every byte sequence \<open>b\<close>, \<open>base64urlDecode\<close> returns exactly \<open>b\<close> on the
  padded base64url encoding of \<open>b\<close> and on the raw unpadded one. The padded decoder is
  tried first: on the unpadded text it succeeds only when the length of \<open>b\<close> is a
  multiple of three (the two encodings then coincide); otherwise it fails and the
  unpadded decoder gives \<open>b\<close>. So \<open>UserV2FromBase64\<close> hands the same bytes to the JSON
  decoder, and returns the same user or error, for both encodings.
\<close>

theorem base64urlDecode_left_inverse:
  "base64urlDecode (URLEncoding_EncodeToString b) = Inr b
   \<and> base64urlDecode (RawURLEncoding_EncodeToString b) = Inr b
   \<and> URLEncoding_DecodeString (URLEncoding_EncodeToString b) = Some b
   \<and> URLEncoding_DecodeString (RawURLEncoding_EncodeToString b)
       = (if length b mod 3 = 0 then Some b else None)
   \<and> RawURLEncoding_DecodeString (RawURLEncoding_EncodeToString b) = Some b
   \<and> UserV2FromBase64 (URLEncoding_EncodeToString b)
       = UserV2FromBase64 (RawURLEncoding_EncodeToString b)"
  by (simp add: base64urlDecode_def URLEncoding_DecodeString_def RawURLEncoding_DecodeString_def
        URLEncoding_EncodeToString_def RawURLEncoding_EncodeToString_def UserV2FromBase64_def
        removeNewlines_Encode decode_Encode decode_padded_of_raw)

theorem base64urlDecode_left_inverse_witness:
  "base64urlDecode ''eyJrZXkiOiJ1In0='' = Inr ''{\"key\":\"u\"}''
   \<and> base64urlDecode ''eyJrZXkiOiJ1In0'' = Inr ''{\"key\":\"u\"}''
   \<and> URLEncoding_DecodeString ''eyJrZXkiOiJ1In0'' = None"
proof -
  have p: "URLEncoding_EncodeToString ''{\"key\":\"u\"}'' = ''eyJrZXkiOiJ1In0=''"
    by (simp add: URLEncoding_EncodeToString_def enc6_def encodeURL_def)
  have r: "RawURLEncoding_EncodeToString ''{\"key\":\"u\"}'' = ''eyJrZXkiOiJ1In0''"
    by (simp add: RawURLEncoding_EncodeToString_def enc6_def encodeURL_def)
  have l: "length ''{\"key\":\"u\"}'' mod 3 = 2" by simp
  from base64urlDecode_left_inverse [of "''{\"key\":\"u\"}''"]
  show ?thesis unfolding p r l by simp
qed

section \<open>Token extraction\<close>

lemma complete_Group:
  "complete (map (\<lambda>(s', _). (s', Some (take (length s - length s') s))) ts)
     = map (\<lambda>_. ([], Some s)) (complete ts)"
  by (induction ts) (auto simp: complete_def)

lemma token_not_api_key: "step tokenPattern (''api_key '' @ u, g) = []"
  by (simp add: tokenPattern_def lower_def hex_def eval_nat_numeral)

lemma step_then_Empty: "concat (map (step Empty) ts) = ts"
  by (induction ts) simp_all

lemma step_Opt_api_key:
  "step (Opt (Lit ''api_key '')) (h, g) =
     (if take 8 h = ''api_key '' then [(drop 8 h, g)] else []) @ [(h, g)]"
proof -
  have "length ''api_key '' = 8" by simp
  then show ?thesis by (simp only: step.simps)
qed

lemma step_uuidHeaderPattern:
  "complete (step uuidHeaderPattern (h, None)) =
     (if take 8 h = ''api_key ''
      then map (\<lambda>_. ([], Some (drop 8 h))) (complete (step tokenPattern (drop 8 h, None)))
      else [])
     @ map (\<lambda>_. ([], Some h)) (complete (step tokenPattern (h, None)))"
proof -
  have g: "complete (step (Group tokenPattern) (s, None))
             = map (\<lambda>_. ([], Some s)) (complete (step tokenPattern (s, None)))" for s
    by (simp only: step.simps complete_Group)
  have e: "step (Seq (Group tokenPattern) Empty) = step (Group tokenPattern)"
    by (rule ext) (simp only: step.simps step_then_Empty)
  have "step uuidHeaderPattern (h, None) =
          concat (map (step (Seq (Group tokenPattern) Empty))
                    (step (Opt (Lit ''api_key '')) (h, None)))"
    unfolding uuidHeaderPattern_def seqs.simps by (rule step.simps)
  then have "step uuidHeaderPattern (h, None) =
          concat (map (step (Group tokenPattern)) (step (Opt (Lit ''api_key '')) (h, None)))"
    by (simp only: e)
  also have "\<dots> = (if take 8 h = ''api_key '' then step (Group tokenPattern) (drop 8 h, None)
                     else [])
                  @ step (Group tokenPattern) (h, None)"
    by (simp only: step_Opt_api_key) simp
  finally have "complete (step uuidHeaderPattern (h, None)) =
      (if take 8 h = ''api_key '' then complete (step (Group tokenPattern) (drop 8 h, None))
       else [])
      @ complete (step (Group tokenPattern) (h, None))"
    by (simp add: complete_def del: step.simps)
  then show ?thesis by (simp only: g)
qed

lemma FindStringSubmatch_uuidHeaderPattern:
  "FindStringSubmatch uuidHeaderPattern h =
     (if take 8 h = ''api_key '' \<and> matchesToken (drop 8 h) then [h, drop 8 h]
      else if matchesToken h then [h, h]
      else [])"
proof -
  have "FindStringSubmatch uuidHeaderPattern h =
          (case complete (step uuidHeaderPattern (h, None)) of
             [] \<Rightarrow> []
           | (rest, g) # _ \<Rightarrow> [h, (case g of None \<Rightarrow> [] | Some sub \<Rightarrow> sub)])"
    by (simp add: FindStringSubmatch_def complete_def)
  then show ?thesis
    unfolding step_uuidHeaderPattern matchesToken_def
    by (cases "complete (step tokenPattern (drop 8 h, None))";
        cases "complete (step tokenPattern (h, None))") simp_all
qed

lemma matchesToken_api_key: "\<not> matchesToken (''api_key '' @ u)"
  unfolding matchesToken_def token_not_api_key complete_def by simp

lemma fetchAuthToken_withAuthorization:
  "fetchAuthToken (withAuthorization req h) =
     (if take 8 h = ''api_key '' \<and> matchesToken (drop 8 h) then Inr (drop 8 h)
      else if matchesToken h then Inr h
      else Inl (errors_New ''No valid token found''))"
  by (simp add: fetchAuthToken_def withAuthorization_def Header_Get_def
        FindStringSubmatch_uuidHeaderPattern)

lemma fetch_prefixed:
  "fetchAuthToken (withAuthorization req (''api_key '' @ t)) =
     (if matchesToken t then Inr t else Inl (errors_New ''No valid token found''))"
  by (simp add: fetchAuthToken_withAuthorization matchesToken_api_key [simplified])

lemma matchesToken_example: "matchesToken ''sdk-01234567-89ab-4cde-8f01-23456789abcd''"
  by (simp add: matchesToken_def complete_def tokenPattern_def lower_def hex_def
        eval_nat_numeral)

lemma matchesToken_example2: "matchesToken ''01234567-89ab-4cde-8f01-23456789abcd''"
  by (simp add: matchesToken_def complete_def tokenPattern_def lower_def hex_def
        eval_nat_numeral)

lemma fetchAuthToken_header:
  "fetchAuthToken req =
     (if take 8 (Header_Get (Header req) ''Authorization'') = ''api_key ''
         \<and> matchesToken (drop 8 (Header_Get (Header req) ''Authorization''))
      then Inr (drop 8 (Header_Get (Header req) ''Authorization''))
      else if matchesToken (Header_Get (Header req) ''Authorization'')
      then Inr (Header_Get (Header req) ''Authorization'')
      else Inl (errors_New ''No valid token found''))"
  by (simp add: fetchAuthToken_def Let_def FindStringSubmatch_uuidHeaderPattern)

lemma not_token_empty: "\<not> matchesToken []"
  by (simp add: matchesToken_def complete_def tokenPattern_def lower_def hex_def eval_nat_numeral)

lemma not_token_example: "\<not> matchesToken ''not-a-token''"
  by (simp add: matchesToken_def complete_def tokenPattern_def lower_def hex_def eval_nat_numeral)

lemma no_token_in_request0: "fetchAuthToken request0 = Inl (errors_New ''No valid token found'')"
  by (simp add: fetchAuthToken_header request0_def Header_Get_def not_token_empty)

lemma no_token_in_example:
  "fetchAuthToken (withAuthorization request0 ''api_key not-a-token'')
     = Inl (errors_New ''No valid token found'')"
  using not_token_example matchesToken_api_key [of "''not-a-token''"]
  by (simp add: fetchAuthToken_withAuthorization)

lemma fetch_evalRequest0:
  "fetchAuthToken evalRequest0 = Inr ''sdk-01234567-89ab-4cde-8f01-23456789abcd''"
  using fetchAuthToken_withAuthorization
          [of "evalRequest0" "''sdk-01234567-89ab-4cde-8f01-23456789abcd''"]
        matchesToken_example
  by (simp add: withAuthorization_def evalRequest0_def)

lemma no_space_not_prefixed:
  "CHR '' '' \<notin> set t \<Longrightarrow> \<not> (take 8 t = ''api_key '' \<and> matchesToken (drop 8 t))"
proof
  assume n: "CHR '' '' \<notin> set t" and "take 8 t = ''api_key '' \<and> matchesToken (drop 8 t)"
  then have "CHR '' '' \<in> set (take 8 t)" by simp
  then show False using n by (meson in_set_takeD)
qed

lemma token_not_prefixed:
  "matchesToken t \<Longrightarrow> \<not> (take 8 t = ''api_key '' \<and> matchesToken (drop 8 t))"
proof
  assume m: "matchesToken t" and "take 8 t = ''api_key '' \<and> matchesToken (drop 8 t)"
  then have "t = ''api_key '' @ drop 8 t" by (metis append_take_drop_id)
  then show False using m matchesToken_api_key by metis
qed

lemma not_token_opaque: "\<not> matchesToken ''sdk-A''"
  by (simp add: matchesToken_def complete_def tokenPattern_def lower_def hex_def eval_nat_numeral)

text \<open>
  C1. A credential is what a header carries after the optional prefix: a text with no
  space in it, such as a text matching the token pattern. The property is proved for
  every \<open>t\<close> that is not itself a header value, that is, not \<^verbatim>\<open>api_key \<close> followed by a
  text matching the token pattern; every text without a space and every text matching
  the token pattern is such a \<open>t\<close> (\<open>no_space_not_prefixed\<close>, \<open>token_not_prefixed\<close>). For
  every such \<open>t\<close>, the header \<^verbatim>\<open>api_key \<close> followed by \<open>t\<close> and the header \<open>t\<close> give the
  same result of \<open>fetchAuthToken\<close> (the token \<open>t\<close> when \<open>t\<close> matches the token pattern,
  the same error otherwise), and so the same outcome of \<open>authorizeMethod\<close> over any map.
\<close>

theorem api_key_prefix_optional:
  assumes "\<not> (take 8 t = ''api_key '' \<and> matchesToken (drop 8 t))"
  shows "fetchAuthToken (withAuthorization req (''api_key '' @ t))
           = fetchAuthToken (withAuthorization req t)
         \<and> fetchAuthToken (withAuthorization req t)
           = (if matchesToken t then Inr t else Inl (errors_New ''No valid token found''))
         \<and> authorizeMethod authKeyMap w (withAuthorization req (''api_key '' @ t))
           = authorizeMethod authKeyMap w (withAuthorization req t)"
proof -
  have "fetchAuthToken (withAuthorization req t)
          = (if matchesToken t then Inr t else Inl (errors_New ''No valid token found''))"
    using assms by (auto simp: fetchAuthToken_withAuthorization)
  then have "fetchAuthToken (withAuthorization req (''api_key '' @ t))
               = fetchAuthToken (withAuthorization req t)"
    by (simp only: fetch_prefixed)
  then show ?thesis
    using \<open>fetchAuthToken (withAuthorization req t)
          = (if matchesToken t then Inr t else Inl (errors_New ''No valid token found''))\<close>
    by (simp only: authorizeMethod_def simp_thms)
qed


theorem api_key_prefix_optional_witness:
  "fetchAuthToken (withAuthorization request0 ''api_key sdk-01234567-89ab-4cde-8f01-23456789abcd'')
     = Inr ''sdk-01234567-89ab-4cde-8f01-23456789abcd''
   \<and> fetchAuthToken (withAuthorization request0 ''sdk-01234567-89ab-4cde-8f01-23456789abcd'')
     = Inr ''sdk-01234567-89ab-4cde-8f01-23456789abcd''
   \<and> fetchAuthToken (withAuthorization request0 ''api_key sdk-A'')
     = Inl (errors_New ''No valid token found'')
   \<and> fetchAuthToken (withAuthorization request0 ''sdk-A'')
     = Inl (errors_New ''No valid token found'')"
proof -
  have a: "\<not> (take 8 ''sdk-01234567-89ab-4cde-8f01-23456789abcd'' = ''api_key ''
            \<and> matchesToken (drop 8 ''sdk-01234567-89ab-4cde-8f01-23456789abcd''))"
    by (rule no_space_not_prefixed) simp
  have b: "\<not> (take 8 ''sdk-A'' = ''api_key '' \<and> matchesToken (drop 8 ''sdk-A''))"
    by (rule no_space_not_prefixed) simp
  from api_key_prefix_optional [OF a, of request0] api_key_prefix_optional [OF b, of request0]
    matchesToken_example not_token_opaque
  show ?thesis by simp
qed

text \<open>
  The hypothesis leaves out header values only: for the text
  \<^verbatim>\<open>api_key 01234567-89ab-4cde-8f01-23456789abcd\<close>, which is a prefixed header and not a
  credential, the pattern reads the prefix off once and no more.
\<close>

lemma prefixed_header_is_read_once:
  "fetchAuthToken
     (withAuthorization request0 (''api_key '' @ ''api_key 01234567-89ab-4cde-8f01-23456789abcd''))
   \<noteq> fetchAuthToken
       (withAuthorization request0 ''api_key 01234567-89ab-4cde-8f01-23456789abcd'')"
proof -
  have "fetchAuthToken
     (withAuthorization request0 (''api_key '' @ ''api_key 01234567-89ab-4cde-8f01-23456789abcd''))
     = Inl (errors_New ''No valid token found'')"
    using matchesToken_api_key [of "''01234567-89ab-4cde-8f01-23456789abcd''"]
      matchesToken_api_key [of "''api_key 01234567-89ab-4cde-8f01-23456789abcd''"]
    by (simp add: fetchAuthToken_withAuthorization)
  moreover have "fetchAuthToken
       (withAuthorization request0 ''api_key 01234567-89ab-4cde-8f01-23456789abcd'')
     = Inr ''01234567-89ab-4cde-8f01-23456789abcd''"
    using matchesToken_example2 by (simp add: fetchAuthToken_withAuthorization)
  ultimately show ?thesis by simp
qed

section \<open>Authorization failures\<close>

text \<open>
  C4, as amended. For every request to a credential-authorized endpoint (each of the
  three wrappers, over its own map): if the Authorization header does not match the
  pattern, the response is 401 with an empty body; if the extracted token has no
  (non-nil) entry in the wrapper's map, the response is 401 with the literal body
  \<^verbatim>\<open>ld-relay is not configured for the provided key\<close>. In both cases the result does
  not depend on the wrapped handler \<open>next\<close>, which is not invoked.
\<close>

theorem unauthorized_is_401:
  "(fetchAuthToken req = Inl e \<longrightarrow>
      clientMuxHandler_authorizeMethod cm next newResponseWriter req
        = Return (newResponseWriter\<lparr>Status := Some 401\<rparr>)
      \<and> eventsMuxHandler_authorizeMethod em next newResponseWriter req
        = Return (newResponseWriter\<lparr>Status := Some 401\<rparr>)
      \<and> streamMuxHandler_authorizeMethod sm next newResponseWriter req
        = Return (newResponseWriter\<lparr>Status := Some 401\<rparr>))
   \<and> (fetchAuthToken req = Inr authKey \<and> index (clients cm) authKey = None \<longrightarrow>
      clientMuxHandler_authorizeMethod cm next newResponseWriter req
        = Return (newResponseWriter
                    \<lparr>Status := Some 401,
                     RespBody := [Bytes ''ld-relay is not configured for the provided key'']\<rparr>))
   \<and> (fetchAuthToken req = Inr authKey \<and> index (eventHandlers em) authKey = None \<longrightarrow>
      eventsMuxHandler_authorizeMethod em next newResponseWriter req
        = Return (newResponseWriter
                    \<lparr>Status := Some 401,
                     RespBody := [Bytes ''ld-relay is not configured for the provided key'']\<rparr>))
   \<and> (fetchAuthToken req = Inr authKey \<and> index (streamHandlers sm) authKey = None \<longrightarrow>
      streamMuxHandler_authorizeMethod sm next newResponseWriter req
        = Return (newResponseWriter
                    \<lparr>Status := Some 401,
                     RespBody := [Bytes ''ld-relay is not configured for the provided key'']\<rparr>))"
  by (simp add: clientMuxHandler_authorizeMethod_def eventsMuxHandler_authorizeMethod_def
        streamMuxHandler_authorizeMethod_def authorizeMethod_def WriteHeader_def Write_def
        newResponseWriter_def)

theorem unauthorized_is_401_witness:
  "clientMuxHandler_authorizeMethod (clientsHandler (initialMaps [env0])) evaluateAllFeatureFlags
       newResponseWriter request0
     = Return \<lparr>RespHeader = Map.empty, Status = Some 401, RespBody = [], Calls = []\<rparr>
   \<and> clientMuxHandler_authorizeMethod (clientsHandler (initialMaps [env0]))
       evaluateAllFeatureFlags newResponseWriter evalRequest0
     = Return \<lparr>RespHeader = Map.empty, Status = Some 401,
               RespBody = [Bytes ''ld-relay is not configured for the provided key''],
               Calls = []\<rparr>
   \<and> streamMuxHandler_authorizeMethod (streamHandler (initialMaps [env0])) serveHandler
       newResponseWriter evalRequest0
     = Return \<lparr>RespHeader = Map.empty, Status = Some 401,
               RespBody = [Bytes ''ld-relay is not configured for the provided key''],
               Calls = []\<rparr>"
proof -
  have b: "index (clients (clientsHandler (initialMaps [env0])))
             ''sdk-01234567-89ab-4cde-8f01-23456789abcd'' = None"
    by (simp add: clientsHandler_def initialMaps_def env0_def index_def)
  have c: "index (streamHandlers (streamHandler (initialMaps [env0])))
             ''sdk-01234567-89ab-4cde-8f01-23456789abcd'' = None"
    by (simp add: streamHandler_def initialMaps_def index_def)
  have n: "newResponseWriter\<lparr>Status := Some 401\<rparr>
             = \<lparr>RespHeader = Map.empty, Status = Some 401, RespBody = [], Calls = []\<rparr>"
    "newResponseWriter\<lparr>Status := Some 401, RespBody := bs\<rparr>
             = \<lparr>RespHeader = Map.empty, Status = Some 401, RespBody = bs, Calls = []\<rparr>" for bs
    by (simp_all add: newResponseWriter_def)
  from unauthorized_is_401 [of request0 "errors_New ''No valid token found''"
         "clientsHandler (initialMaps [env0])" evaluateAllFeatureFlags]
    unauthorized_is_401 [of evalRequest0 _ "clientsHandler (initialMaps [env0])"
         evaluateAllFeatureFlags _ _ "''sdk-01234567-89ab-4cde-8f01-23456789abcd''"]
    unauthorized_is_401 [of evalRequest0 _ _ serveHandler _
         "streamHandler (initialMaps [env0])" "''sdk-01234567-89ab-4cde-8f01-23456789abcd''"]
  show ?thesis
    unfolding no_token_in_request0 fetch_evalRequest0 b c n by simp
qed

text \<open>
  C4 as stated fails: a request whose Authorization header does not match the pattern
  gets 401 with no body at all.
\<close>

theorem unauthorized_without_body_counterexample:
  "clientMuxHandler_authorizeMethod (clientsHandler (initialMaps [env0])) evaluateAllFeatureFlags
       newResponseWriter (withAuthorization request0 ''api_key not-a-token'')
     = Return \<lparr>RespHeader = Map.empty, Status = Some 401, RespBody = [], Calls = []\<rparr>"
  by (simp add: clientMuxHandler_authorizeMethod_def authorizeMethod_def no_token_in_example
        WriteHeader_def newResponseWriter_def)

section \<open>The evaluation handler\<close>

lemma unmarshal_empty_object: "json_Unmarshal_UserPtr ''{}'' = Inr (Some zeroUser)"
  by (simp add: json_Unmarshal_UserPtr_def parseJSON_def skipSpace_def isSpace_def)

lemma unmarshal_null: "json_Unmarshal_UserPtr ''null'' = Inr None"
  by (simp add: json_Unmarshal_UserPtr_def parseJSON_def skipSpace_def isSpace_def)

lemma parse_user:
  "json_Unmarshal_User ''{\"key\":\"u\"}'' = Inr \<lparr>Key = Some ''u'', Attributes = []\<rparr>"
  by (simp add: json_Unmarshal_User_def parseJSON_def skipSpace_def isSpace_def zeroUser_def
         toLowerASCII_def)

lemma user_from_path:
  "UserV2FromBase64 ''eyJrZXkiOiJ1In0='' = Inr \<lparr>Key = Some ''u'', Attributes = []\<rparr>"
proof -
  have "Encode True ''{\"key\":\"u\"}'' = ''eyJrZXkiOiJ1In0=''"
    by (simp add: enc6_def encodeURL_def)
  then have "base64urlDecode ''eyJrZXkiOiJ1In0='' = Inr ''{\"key\":\"u\"}''"
    using decode_Encode [of True "''{\"key\":\"u\"}''"]
      removeNewlines_Encode [of True "''{\"key\":\"u\"}''"]
    by (simp add: base64urlDecode_def URLEncoding_DecodeString_def)
  then show ?thesis by (simp add: UserV2FromBase64_def parse_user)
qed

lemma get_without_key_is_400:
  assumes "Method req \<noteq> ''REPORT''"
    and "base64urlDecode (mux_Vars req ''user'') = Inr idStr"
    and "json_Unmarshal_User idStr = Inr user"
    and "Key user = None"
  shows "evaluateAllFeatureFlags newResponseWriter req
           = Return (newResponseWriter
                       \<lparr>Status := Some 400,
                        RespBody := [Marshal_errorJson ''User must have a 'key' attribute'']\<rparr>)"
  using assms
  by (simp add: evaluateAllFeatureFlags_def UserV2FromBase64_def ErrorJsonMsg_def
        WriteHeader_def Write_def newResponseWriter_def)

text \<open>
  C2. The claim holds on the GET path (\<open>get_without_key_is_400\<close>), where
  \<open>UserV2FromBase64\<close> checks the key. The REPORT path has no such check: for the body
  \<^verbatim>\<open>{}\<close> the handler calls the evaluator with a user whose key is nil and replies 200.
\<close>

theorem report_without_key_is_evaluated:
  "evaluateAllFeatureFlags newResponseWriter (reportRequest0 ''application/json'' ''{}'')
     = Return \<lparr>RespHeader = [''Content-Type'' \<mapsto> ''application/json''],
               Status = Some 200,
               RespBody = [Marshal_flags (JObject [])],
               Calls = [Call_AllFlags \<lparr>Key = None, Attributes = []\<rparr>]\<rparr>"
  by (simp add: evaluateAllFeatureFlags_def reportRequest0_def Header_Get_def
        unmarshal_empty_object zeroUser_def client0_def newResponseWriter_def called_def
        Header_Set_def WriteHeader_def Write_def)

text \<open>
  C10. For the body \<^verbatim>\<open>null\<close> the decoder leaves the user pointer nil without an
  error, and the dereference before the call of the evaluator panics: no response is
  written.
\<close>

theorem report_null_body_panics:
  "evaluateAllFeatureFlags newResponseWriter (reportRequest0 ''application/json'' ''null'')
     = Panic ''nil pointer dereference''"
  by (simp add: evaluateAllFeatureFlags_def reportRequest0_def Header_Get_def unmarshal_null)

text \<open>
  C7. For every REPORT request whose Content-Type header differs from
  \<^verbatim>\<open>application/json\<close>, the handler replies 415 with a text body and calls no
  collaborator; a REPORT request whose Content-Type is \<^verbatim>\<open>application/json\<close> never
  gets the status 415.
\<close>

theorem report_content_type:
  assumes "Method req = ''REPORT''"
  shows "(Header_Get (Header req) ''Content-Type'' \<noteq> ''application/json'' \<longrightarrow>
            evaluateAllFeatureFlags w req
              = Return (Write (WriteHeader w 415)
                          (Bytes ''Content-Type must be application/json.''))
            \<and> evaluateAllFeatureFlags newResponseWriter req
              = Return (newResponseWriter
                          \<lparr>Status := Some 415,
                           RespBody := [Bytes ''Content-Type must be application/json.'']\<rparr>))
         \<and> (Header_Get (Header req) ''Content-Type'' = ''application/json''
              \<and> Status w \<noteq> Some 415 \<longrightarrow>
            statusOf (evaluateAllFeatureFlags w req) \<noteq> Some 415)"
  using assms
  by (auto simp: evaluateAllFeatureFlags_def statusOf_def WriteHeader_def Write_def
        newResponseWriter_def Header_Set_def called_def
        split: sum.splits ContextValue.splits option.splits)

theorem report_content_type_witness:
  "evaluateAllFeatureFlags newResponseWriter (reportRequest0 ''text/plain'' ''{\"key\":\"u\"}'')
     = Return \<lparr>RespHeader = Map.empty, Status = Some 415,
               RespBody = [Bytes ''Content-Type must be application/json.''], Calls = []\<rparr>
   \<and> statusOf (evaluateAllFeatureFlags newResponseWriter
                 (reportRequest0 ''application/json'' ''{\"key\":\"u\"}'')) \<noteq> Some 415"
proof -
  have m: "Method (reportRequest0 ct b) = ''REPORT''" for ct b
    by (simp add: reportRequest0_def)
  have h: "Header_Get (Header (reportRequest0 ct b)) ''Content-Type'' = ct" for ct b
    by (simp add: reportRequest0_def Header_Get_def)
  from report_content_type [OF m, of "''text/plain''" "''{\"key\":\"u\"}''" newResponseWriter]
    report_content_type [OF m, of "''application/json''" "''{\"key\":\"u\"}''" newResponseWriter]
  show ?thesis
    unfolding h by (simp add: newResponseWriter_def Write_def WriteHeader_def)
qed

section \<open>Browser routes\<close>

text \<open>
  C8. For every request to a browser route whose \<^verbatim>\<open>envId\<close> path variable has no
  (non-nil) entry in the browser map, the response is 404 with the text
  \<^verbatim>\<open>ld-relay is not configured for environment id \<close> followed by the id; the result
  does not depend on the inner handler \<open>next\<close>, which is not invoked, and it is the same
  whatever the request's headers are (the Authorization header among them).
\<close>

theorem unknown_environment_is_404:
  assumes "index (clients m) (mux_Vars req ''envId'') = None"
  shows "findEnvironment m next w req
           = Return (Write (WriteHeader (Header_Set w ''Access-Control-Allow-Origin'' ''*'') 404)
                       (Bytes (''ld-relay is not configured for environment id ''
                               @ mux_Vars req ''envId'')))
         \<and> findEnvironment m next newResponseWriter req
           = Return (newResponseWriter
                       \<lparr>RespHeader := [''Access-Control-Allow-Origin'' \<mapsto> ''*''],
                        Status := Some 404,
                        RespBody := [Bytes (''ld-relay is not configured for environment id ''
                                             @ mux_Vars req ''envId'')]\<rparr>)
         \<and> findEnvironment m next w (req\<lparr>Header := h\<rparr>) = findEnvironment m next w req"
proof -
  have "mux_Vars (req\<lparr>Header := h\<rparr>) ''envId'' = mux_Vars req ''envId''"
    by (simp add: mux_Vars_def)
  then have "findEnvironment m next w (req\<lparr>Header := h\<rparr>) = findEnvironment m next w req"
    using assms by (simp add: findEnvironment_def)
  moreover have "findEnvironment m next w req
           = Return (Write (WriteHeader (Header_Set w ''Access-Control-Allow-Origin'' ''*'') 404)
                       (Bytes (''ld-relay is not configured for environment id ''
                               @ mux_Vars req ''envId'')))" for w
    using assms by (simp add: findEnvironment_def)
  moreover have "Write (WriteHeader
                          (Header_Set newResponseWriter ''Access-Control-Allow-Origin'' ''*'') 404)
                   (Bytes b)
                 = newResponseWriter
                       \<lparr>RespHeader := [''Access-Control-Allow-Origin'' \<mapsto> ''*''],
                        Status := Some 404, RespBody := [Bytes b]\<rparr>" for b
    by (simp add: WriteHeader_def Write_def newResponseWriter_def Header_Set_def)
  ultimately show ?thesis by (simp only: simp_thms)
qed

theorem unknown_environment_is_404_witness:
  "findEnvironment browserHandler0 evaluateAllFeatureFlags newResponseWriter
       (goalsRequest0\<lparr>Vars := [''envId'' \<mapsto> ''unknown'']\<rparr>)
     = Return \<lparr>RespHeader = [''Access-Control-Allow-Origin'' \<mapsto> ''*''],
               Status = Some 404,
               RespBody = [Bytes ''ld-relay is not configured for environment id unknown''],
               Calls = []\<rparr>"
proof -
  have "index (clients browserHandler0)
          (mux_Vars (goalsRequest0\<lparr>Vars := [''envId'' \<mapsto> ''unknown'']\<rparr>) ''envId'') = None"
    by (simp add: browserHandler0_def mux_Vars_def index_def)
  from unknown_environment_is_404 [OF this, of evaluateAllFeatureFlags]
  show ?thesis
    by (simp add: newResponseWriter_def mux_Vars_def Write_def WriteHeader_def Header_Set_def)
qed

lemma getGoals_upstream_failure:
  assumes "parses net (baseUri m @ ''/sdk/goals/'' @ mux_Vars req ''envId'')"
    and "Do net (baseUri m @ ''/sdk/goals/'' @ mux_Vars req ''envId'')
           (Header_Get (Header req) ''Authorization'') = Inl err"
  shows "getGoals net m newResponseWriter req
           = Return (newResponseWriter
               \<lparr>RespHeader := [''Access-Control-Allow-Origin'' \<mapsto> ''*''],
                Status := Some 500,
                Calls := [Call_Do (baseUri m @ ''/sdk/goals/'' @ mux_Vars req ''envId'')
                            (Header_Get (Header req) ''Authorization'')]\<rparr>)"
  using assms
  by (simp add: getGoals_def Let_def WriteHeader_def called_def Header_Set_def
        newResponseWriter_def)

lemma getGoals_relays:
  assumes "parses net (baseUri m @ ''/sdk/goals/'' @ mux_Vars req ''envId'')"
    and "Do net (baseUri m @ ''/sdk/goals/'' @ mux_Vars req ''envId'')
           (Header_Get (Header req) ''Authorization'') = Inr res"
    and "ResHeader res ''Content-Type'' = Some (contentType # others)"
  shows "getGoals net m newResponseWriter req
           = Return (newResponseWriter
               \<lparr>RespHeader := [''Access-Control-Allow-Origin'' \<mapsto> ''*'',
                               ''Content-Type'' \<mapsto> contentType],
                Status := Some (StatusCode res),
                RespBody := [Bytes (ResBody res)],
                Calls := [Call_Do (baseUri m @ ''/sdk/goals/'' @ mux_Vars req ''envId'')
                            (Header_Get (Header req) ''Authorization'')]\<rparr>)"
  using assms
  by (simp add: getGoals_def Let_def WriteHeader_def Write_def called_def Header_Set_def
        newResponseWriter_def)

text \<open>
  C9. The goals handler forwards the Authorization header, sets the CORS header, answers
  500 with an empty body when the upstream call fails (\<open>getGoals_upstream_failure\<close>)
  and relays status, Content-Type and body when the upstream response has a Content-Type
  header (\<open>getGoals_relays\<close>). When the upstream response has no Content-Type header,
  indexing the header's value list panics and nothing is relayed.
\<close>

theorem goals_without_content_type_panics:
  "findEnvironment browserHandler0 (getGoals net0 browserHandler0) newResponseWriter goalsRequest0
     = Panic ''index out of range''"
  by (simp add: findEnvironment_def getGoals_def browserHandler0_def net0_def goalsRequest0_def
        mux_Vars_def index_def Let_def)

section \<open>The status endpoint\<close>

lemma statusStep_connected:
  "statusStep m k (envs, healthy) =
     (envs(k \<mapsto> StatusEntry (if connected m k then ''connected'' else ''disconnected'')),
      healthy \<and> connected m k)"
  by (cases "index (clients m) k") (simp_all add: statusStep_def connected_def)

lemma fold_statusStep:
  "fold (statusStep m) keys (envs, healthy) =
     ((\<lambda>k. if k \<in> set keys
            then Some (StatusEntry (if connected m k then ''connected'' else ''disconnected''))
            else envs k),
      healthy \<and> (\<forall>k \<in> set keys. connected m k))"
proof (induction keys arbitrary: envs healthy)
  case Nil
  show ?case by simp
next
  case (Cons k keys)
  show ?case
    by (simp only: fold_Cons comp_apply statusStep_connected Cons) (auto simp: fun_eq_iff)
qed

text \<open>
  C5. Whatever the order in which the loop visits the keys of the server map, the
  status response maps each key to \<^verbatim>\<open>connected\<close> exactly when its client is not nil and
  reports initialised, and to \<^verbatim>\<open>disconnected\<close> otherwise, and its \<^verbatim>\<open>status\<close> field is
  \<^verbatim>\<open>healthy\<close> exactly when every key is connected, else \<^verbatim>\<open>degraded\<close>.
\<close>

theorem status_report:
  assumes "set keys = dom (clients m)"
  shows "getStatus m keys newResponseWriter req =
           Return (newResponseWriter
             \<lparr>RespHeader := [''Content-Type'' \<mapsto> ''application/json''],
              Status := Some 200,
              RespBody :=
                [Marshal_status
                   (\<lambda>k. if k \<in> dom (clients m)
                        then Some (StatusEntry (if connected m k then ''connected''
                                                else ''disconnected''))
                        else None)
                   (if \<forall>k \<in> dom (clients m). connected m k then ''healthy''
                    else ''degraded'')]\<rparr>)"
  using assms
  by (simp add: getStatus_def fold_statusStep Write_def WriteHeader_def Header_Set_def
        newResponseWriter_def)

theorem status_report_witness:
  "(case getStatus statusHandler0 [''sdk-c'', ''sdk-a'', ''sdk-b''] newResponseWriter request0 of
      Return w \<Rightarrow>
        Status w = Some 200
        \<and> (case RespBody w of
              [Marshal_status envs status] \<Rightarrow>
                envs ''sdk-a'' = Some (StatusEntry ''connected'')
                \<and> envs ''sdk-b'' = Some (StatusEntry ''disconnected'')
                \<and> envs ''sdk-c'' = Some (StatusEntry ''disconnected'')
                \<and> envs ''sdk-d'' = None
                \<and> status = ''degraded''
            | _ \<Rightarrow> False)
    | Panic msg \<Rightarrow> False)"
proof -
  have d: "set [''sdk-c'', ''sdk-a'', ''sdk-b''] = dom (clients statusHandler0)"
    by (auto simp: statusHandler0_def)
  have c: "connected statusHandler0 ''sdk-a''" "\<not> connected statusHandler0 ''sdk-b''"
    "\<not> connected statusHandler0 ''sdk-c''"
    by (simp_all add: connected_def statusHandler0_def index_def client0_def)
  have m: "''sdk-a'' \<in> dom (clients statusHandler0)" "''sdk-b'' \<in> dom (clients statusHandler0)"
    "''sdk-c'' \<in> dom (clients statusHandler0)" "''sdk-d'' \<notin> dom (clients statusHandler0)"
    by (simp_all add: statusHandler0_def)
  have h: "\<not> (\<forall>k \<in> dom (clients statusHandler0). connected statusHandler0 k)"
    using c(2) m(2) by blast
  show ?thesis
    unfolding status_report [OF d, of request0]
    by (simp add: c h m newResponseWriter_def)
qed

section \<open>Start-up failures\<close>

text \<open>
  C6, as amended. For every environment whose SDK client fails to initialise: if
  \<^verbatim>\<open>exitOnError\<close> is set and \<^verbatim>\<open>ignoreConnectionErrors\<close> is not, the process exits with
  status 1; if \<^verbatim>\<open>ignoreConnectionErrors\<close> is set, the stream handler and the credential
  entries are installed (and the event forwarder when events are sent); if neither flag
  is set, no stream handler and no event forwarder is installed, so a stream request
  presenting the server key is answered 401 unless a handler was there before, but the
  client is still stored under the server key, the mobile key and the environment id, so
  an evaluation request presenting the server key, the mobile key (on the mobile routes)
  or the environment id (on the browser routes) reaches the wrapped handler.
\<close>

theorem startEnvironment_failure_policy:
  assumes "err \<noteq> None"
  shows "(ExitOnError c \<and> \<not> IgnoreConnectionErrors c \<longrightarrow>
            startEnvironment c e (client, err) maps = Exit 1)
         \<and> (IgnoreConnectionErrors c \<longrightarrow>
              (case startEnvironment c e (client, err) maps of
                 Exit n \<Rightarrow> False
               | Running maps' \<Rightarrow>
                   index (m_handlers maps') (ApiKey e) = Some (publisher_Handler (ApiKey e))
                   \<and> index (m_clients maps') (ApiKey e) = Some client
                   \<and> (\<forall>k. MobileKey e = Some k \<and> k \<noteq> [] \<longrightarrow>
                          index (m_mobileClients maps') k = Some client)
                   \<and> (\<forall>k. EnvId e = Some k \<and> k \<noteq> [] \<longrightarrow>
                          index (m_clientSideClients maps') k = Some client)
                   \<and> (SendEvents c \<longrightarrow>
                          index (m_eventHandlers maps') (ApiKey e)
                            = Some (newRelayHandler (ApiKey e)))))
         \<and> (\<not> ExitOnError c \<and> \<not> IgnoreConnectionErrors c \<longrightarrow>
              (case startEnvironment c e (client, err) maps of
                 Exit n \<Rightarrow> False
               | Running maps' \<Rightarrow>
                   m_handlers maps' = m_handlers maps
                   \<and> m_eventHandlers maps' = m_eventHandlers maps
                   \<and> index (m_clients maps') (ApiKey e) = Some client
                   \<and> (\<forall>k. MobileKey e = Some k \<and> k \<noteq> [] \<longrightarrow>
                          index (m_mobileClients maps') k = Some client)
                   \<and> (\<forall>k. EnvId e = Some k \<and> k \<noteq> [] \<longrightarrow>
                          index (m_clientSideClients maps') k = Some client)
                   \<and> (\<forall>req next. fetchAuthToken req = Inr (ApiKey e) \<longrightarrow>
                          clientMuxHandler_authorizeMethod (clientsHandler maps') next
                              newResponseWriter req
                            = next newResponseWriter (req\<lparr>Context := ClientContext client\<rparr>))
                   \<and> (\<forall>k req next. MobileKey e = Some k \<and> k \<noteq> []
                          \<and> fetchAuthToken req = Inr k \<longrightarrow>
                          clientMuxHandler_authorizeMethod (mobileClientsHandler maps') next
                              newResponseWriter req
                            = next newResponseWriter (req\<lparr>Context := ClientContext client\<rparr>))
                   \<and> (\<forall>k req next. EnvId e = Some k \<and> k \<noteq> []
                          \<and> mux_Vars req ''envId'' = k \<longrightarrow>
                          findEnvironment (clientSideClientsHandler c maps') next
                              newResponseWriter req
                            = next (Header_Set newResponseWriter
                                      ''Access-Control-Allow-Origin'' ''*'')
                                   (req\<lparr>Context := ClientContext client\<rparr>))
                   \<and> (\<forall>req next. fetchAuthToken req = Inr (ApiKey e)
                          \<and> index (m_handlers maps) (ApiKey e) = None \<longrightarrow>
                          streamMuxHandler_authorizeMethod (streamHandler maps') next
                              newResponseWriter req
                            = Return (newResponseWriter
                                \<lparr>Status := Some 401,
                                 RespBody :=
                                   [Bytes ''ld-relay is not configured for the provided key'']\<rparr>))))"
  using assms
  by (auto simp: startEnvironment_def Let_def index_def clientsHandler_def streamHandler_def
        mobileClientsHandler_def clientSideClientsHandler_def findEnvironment_def
        clientMuxHandler_authorizeMethod_def streamMuxHandler_authorizeMethod_def
        authorizeMethod_def WriteHeader_def Write_def newResponseWriter_def
        split: option.splits)

theorem startEnvironment_failure_policy_witness:
  "startEnvironment (config0\<lparr>ExitOnError := True\<rparr>) env0
       (client0, Some (errors_New ''timeout'')) (initialMaps [env0]) = Exit 1
   \<and> startEnvironment (config0\<lparr>IgnoreConnectionErrors := True\<rparr>) env0
       (client0, Some (errors_New ''timeout'')) (initialMaps [env0])
     = Running \<lparr>m_clients = [ApiKey env0 \<mapsto> Some client0],
                m_mobileClients = Map.empty,
                m_clientSideClients = Map.empty,
                m_handlers = [ApiKey env0 \<mapsto> Some (publisher_Handler (ApiKey env0))],
                m_eventHandlers = Map.empty\<rparr>
   \<and> startEnvironment config0 env0
       (client0, Some (errors_New ''timeout'')) (initialMaps [env0])
     = Running \<lparr>m_clients = [ApiKey env0 \<mapsto> Some client0],
                m_mobileClients = Map.empty,
                m_clientSideClients = Map.empty,
                m_handlers = Map.empty,
                m_eventHandlers = Map.empty\<rparr>"
proof -
  have n: "Some (errors_New ''timeout'') \<noteq> None" by simp
  from startEnvironment_failure_policy [OF n, of "config0\<lparr>ExitOnError := True\<rparr>" env0 client0
         "initialMaps [env0]"]
  have "startEnvironment (config0\<lparr>ExitOnError := True\<rparr>) env0
       (client0, Some (errors_New ''timeout'')) (initialMaps [env0]) = Exit 1"
    by (simp add: config0_def)
  then show ?thesis
    by (simp add: startEnvironment_def config0_def env0_def initialMaps_def)
qed

text \<open>
  C6 as stated fails: with neither flag set and a client that timed out, an evaluation
  request presenting the environment's server key is served with status 200.
\<close>

theorem failed_environment_still_served:
  "(case startEnvironment config0 env0 (client0, Some (errors_New ''timeout''))
           (initialMaps [env0]) of
      Exit n \<Rightarrow> False
    | Running maps' \<Rightarrow>
        clientMuxHandler_authorizeMethod (clientsHandler maps') evaluateAllFeatureFlags
            newResponseWriter evalRequest0
          = Return \<lparr>RespHeader = [''Content-Type'' \<mapsto> ''application/json''],
                    Status = Some 200,
                    RespBody = [Marshal_flags (JObject [])],
                    Calls = [Call_AllFlags \<lparr>Key = Some ''u'', Attributes = []\<rparr>]\<rparr>)"
proof -
  have "startEnvironment config0 env0 (client0, Some (errors_New ''timeout''))
           (initialMaps [env0])
        = Running ((initialMaps [env0])
            \<lparr>m_clients := (m_clients (initialMaps [env0]))(ApiKey env0 \<mapsto> Some client0)\<rparr>)"
    by (simp add: startEnvironment_def config0_def env0_def)
  moreover have "clientMuxHandler_authorizeMethod
       (clientsHandler ((initialMaps [env0])
            \<lparr>m_clients := (m_clients (initialMaps [env0]))(ApiKey env0 \<mapsto> Some client0)\<rparr>))
       evaluateAllFeatureFlags newResponseWriter evalRequest0
     = evaluateAllFeatureFlags newResponseWriter (evalRequest0\<lparr>Context := ClientContext client0\<rparr>)"
    by (simp add: clientMuxHandler_authorizeMethod_def authorizeMethod_def fetch_evalRequest0
          clientsHandler_def index_def env0_def)
  moreover have "evaluateAllFeatureFlags newResponseWriter
        (evalRequest0\<lparr>Context := ClientContext client0\<rparr>)
      = Return \<lparr>RespHeader = [''Content-Type'' \<mapsto> ''application/json''],
                    Status = Some 200,
                    RespBody = [Marshal_flags (JObject [])],
                    Calls = [Call_AllFlags \<lparr>Key = Some ''u'', Attributes = []\<rparr>]\<rparr>"
    by (simp add: evaluateAllFeatureFlags_def evalRequest0_def mux_Vars_def user_from_path
          client0_def newResponseWriter_def called_def Header_Set_def WriteHeader_def Write_def)
  ultimately show ?thesis by simp
qed

end
